theory Spec2Isabelle
  imports Main
begin

section \<open>Python values\<close>

text \<open>
  The notebook \<^verbatim>\<open>streaming-specific-nodes.ipynb\<close> handles dictionaries whose values are
  not checked at run time, so a value is one of the Python objects that can occur there.
  Python strings are modelled as \<^typ>\<open>string\<close>.
\<close>

datatype pyval = PyNone | PyStr string | PyInt int

text \<open>Exceptions, by class; the argument is the key or the message.\<close>

datatype error =
  KeyError string | ValueError string | OSError string | EOFError | OtherError string

text \<open>Truth value testing, as \<^verbatim>\<open>if x\<close> and \<^verbatim>\<open>not x\<close> do it.\<close>

fun truthy :: "pyval \<Rightarrow> bool" where
  "truthy PyNone = False"
| "truthy (PyStr s) = (s \<noteq> [])"
| "truthy (PyInt i) = (i \<noteq> 0)"

text \<open>
  \<^verbatim>\<open>str(x)\<close>, which an f-string field with no format specification applies to its
  argument. The interpreter of the notebook (CPython 3.12, with its default limit) refuses
  to convert an integer of more than 4300 decimal digits, the sign not counted, and raises
  \<^verbatim>\<open>ValueError\<close>.
\<close>

fun digits :: "nat \<Rightarrow> string" where
  "digits n =
     (if n < 10 then [''0123456789'' ! n]
      else digits (n div 10) @ [''0123456789'' ! (n mod 10)])"

declare digits.simps [simp del]

definition int_str :: "int \<Rightarrow> string" where
  "int_str i = (if i < 0 then CHR ''-'' # digits (nat (- i)) else digits (nat i))"

definition max_str_digits :: nat where
  "max_str_digits = 4300"

definition int_to_str :: "int \<Rightarrow> error + string" where
  "int_to_str i =
     (if 10 ^ max_str_digits \<le> \<bar>i\<bar> then
        Inl (ValueError ''Exceeds the limit (4300 digits) for integer string conversion; use sys.set_int_max_str_digits() to increase the limit'')
      else Inr (int_str i))"

fun py_str :: "pyval \<Rightarrow> error + string" where
  "py_str PyNone = Inr ''None''"
| "py_str (PyStr s) = Inr s"
| "py_str (PyInt i) = int_to_str i"

section \<open>Setting the credential: \<^verbatim>\<open>_set_env\<close>\<close>

text \<open>
  \<^verbatim>\<open>
  def _set_env(var: str):
      if not os.environ.get(var):
          os.environ[var] = getpass.getpass(f"{var}: ")
  \<close>
  The function reads and writes the process environment and talks to the terminal, so
  it runs in a world made of the environment, the lines the user is going to enter, and
  the prompts shown so far.
\<close>

record os_world =
  environ :: "string \<rightharpoonup> string"
  tty_input :: "string list"
  prompted :: "string list"

text \<open>\<^verbatim>\<open>os.environ.get(var)\<close>: the value, or \<^verbatim>\<open>None\<close> for a name that is not set.\<close>

definition environ_get :: "string \<Rightarrow> os_world \<Rightarrow> pyval" where
  "environ_get var w = (case environ w var of None \<Rightarrow> PyNone | Some v \<Rightarrow> PyStr v)"

text \<open>
  \<^verbatim>\<open>getpass.getpass(prompt)\<close> shows the prompt and reads one line without echo; at the
  end of the input it raises \<^verbatim>\<open>EOFError\<close>, the prompt having been shown.
\<close>

definition getpass :: "string \<Rightarrow> os_world \<Rightarrow> (error + string) \<times> os_world" where
  "getpass prompt w =
     (let w' = w\<lparr>prompted := prompted w @ [prompt]\<rparr> in
      case tty_input w of
        [] \<Rightarrow> (Inl EOFError, w')
      | line # rest \<Rightarrow> (Inr line, w'\<lparr>tty_input := rest\<rparr>))"

text \<open>
  \<^verbatim>\<open>os.environ[key] = value\<close> on a POSIX system: the interpreter refuses a null byte
  in the name or the value and a name with \<^verbatim>\<open>=\<close> in it, with \<^verbatim>\<open>ValueError\<close>; the
  system refuses the empty name, which gives \<^verbatim>\<open>OSError\<close>; otherwise the variable is set.
\<close>

definition legal_name :: "string \<Rightarrow> bool" where
  "legal_name key = (key \<noteq> [] \<and> CHR ''='' \<notin> set key \<and> CHR 0x00 \<notin> set key)"

definition legal_value :: "string \<Rightarrow> bool" where
  "legal_value v = (CHR 0x00 \<notin> set v)"

definition environ_setitem :: "string \<Rightarrow> string \<Rightarrow> os_world \<Rightarrow> (error + unit) \<times> os_world" where
  "environ_setitem key v w =
     (if \<not> legal_value v \<or> CHR 0x00 \<in> set key then (Inl (ValueError ''embedded null byte''), w)
      else if CHR ''='' \<in> set key then
        (Inl (ValueError ''illegal environment variable name''), w)
      else if key = [] then (Inl (OSError ''[Errno 22] Invalid argument''), w)
      else (Inr (), w\<lparr>environ := (environ w)(key \<mapsto> v)\<rparr>))"

text \<open>The function itself; \<open>set_env\<close> stands for the source's \<^verbatim>\<open>_set_env\<close>.\<close>

definition set_env :: "string \<Rightarrow> os_world \<Rightarrow> (error + unit) \<times> os_world" where
  "set_env var w =
     (if \<not> truthy (environ_get var w) then
        (case getpass (var @ '': '') w of
           (Inl e, w') \<Rightarrow> (Inl e, w')
         | (Inr entered, w') \<Rightarrow> environ_setitem var entered w')
      else (Inr (), w))"

section \<open>The state and the two node functions\<close>

text \<open>
  \<^verbatim>\<open>
  class State(TypedDict):
      topic: str
      joke: str
      poem: str
  \<close>
  A \<^verbatim>\<open>TypedDict\<close> is a declaration for the type checker: at run time a state is an
  ordinary dictionary.
\<close>

datatype py_type = Str_type | Int_type | None_type

definition State :: "(string \<times> py_type) list" where
  "State = [(''topic'', Str_type), (''joke'', Str_type), (''poem'', Str_type)]"

type_synonym state = "string \<rightharpoonup> pyval"

text \<open>
  A chat message as the model returns it and as the stream yields it: the code reads its
  \<^verbatim>\<open>content\<close> only, which is text. A request message is the dictionary literal with the
  keys \<^verbatim>\<open>role\<close> and \<^verbatim>\<open>content\<close>.
\<close>

record message =
  content :: string

type_synonym request = "(string \<times> string) list list"

text \<open>
  The chat model is outside the notebook: \<^verbatim>\<open>model.invoke\<close> is a parameter, which answers
  a request with a message or raises.
\<close>

type_synonym chat_model = "request \<Rightarrow> error + message"

text \<open>
  What a call of a node function leaves behind: what it returned or raised, the argument
  dictionary as it is when the call ends, and the requests it sent to the model, in
  order.
\<close>

record node_outcome =
  returned :: "error + state"
  state_after :: state
  invoked :: "request list"

text \<open>
  \<^verbatim>\<open>
  def write_joke(state: State):
      topic = state["topic"]
      joke_response = model.invoke(
          [{"role": "user", "content": f"Write a joke about {topic}"}]
      )
      return {"joke": joke_response.content}
  \<close>
\<close>

definition write_joke :: "chat_model \<Rightarrow> state \<Rightarrow> node_outcome" where
  "write_joke model state =
     (case state ''topic'' of
        None \<Rightarrow> \<lparr>returned = Inl (KeyError ''topic''), state_after = state, invoked = []\<rparr>
      | Some topic \<Rightarrow>
          (case py_str topic of
             Inl e \<Rightarrow> \<lparr>returned = Inl e, state_after = state, invoked = []\<rparr>
           | Inr text \<Rightarrow>
               (let req = [[(''role'', ''user''), (''content'', ''Write a joke about '' @ text)]] in
                case model req of
                  Inl e \<Rightarrow> \<lparr>returned = Inl e, state_after = state, invoked = [req]\<rparr>
                | Inr joke_response \<Rightarrow>
                    \<lparr>returned = Inr [''joke'' \<mapsto> PyStr (content joke_response)],
                     state_after = state, invoked = [req]\<rparr>)))"

text \<open>
  \<^verbatim>\<open>
  def write_poem(state: State):
      topic = state["topic"]
      poem_response = model.invoke(
          [{"role": "user", "content": f"Write a short poem about {topic}"}]
      )
      return {"poem": poem_response.content}
  \<close>
\<close>

definition write_poem :: "chat_model \<Rightarrow> state \<Rightarrow> node_outcome" where
  "write_poem model state =
     (case state ''topic'' of
        None \<Rightarrow> \<lparr>returned = Inl (KeyError ''topic''), state_after = state, invoked = []\<rparr>
      | Some topic \<Rightarrow>
          (case py_str topic of
             Inl e \<Rightarrow> \<lparr>returned = Inl e, state_after = state, invoked = []\<rparr>
           | Inr text \<Rightarrow>
               (let req = [[(''role'', ''user''), (''content'', ''Write a short poem about '' @ text)]] in
                case model req of
                  Inl e \<Rightarrow> \<lparr>returned = Inl e, state_after = state, invoked = [req]\<rparr>
                | Inr poem_response \<Rightarrow>
                    \<lparr>returned = Inr [''poem'' \<mapsto> PyStr (content poem_response)],
                     state_after = state, invoked = [req]\<rparr>)))"

text \<open>
  Modelled from the spec: the engine's merge of a node's update into the state is not
  part of the notebook; the state is "a passthrough dictionary merged by the external
  engine", so the keys of the update replace those of the state and the others stay.
\<close>

definition merge :: "state \<Rightarrow> state \<Rightarrow> state" where
  "merge st upd = st ++ upd"

section \<open>Building the graph\<close>

text \<open>
  \<^verbatim>\<open>
  graph = (
      StateGraph(State)
      .add_node(write_joke)
      .add_node(write_poem)
      .add_edge(START, "write_joke")
      .add_edge(START, "write_poem")
      .compile()
  )
  \<close>
  A Python function object carries its name, under which \<^verbatim>\<open>add_node\<close> registers it.
\<close>

record py_function =
  fn_name :: string
  fn_call :: "chat_model \<Rightarrow> state \<Rightarrow> node_outcome"

definition write_joke_fn :: py_function where
  "write_joke_fn = \<lparr>fn_name = ''write_joke'', fn_call = write_joke\<rparr>"

definition write_poem_fn :: py_function where
  "write_poem_fn = \<lparr>fn_name = ''write_poem'', fn_call = write_poem\<rparr>"

text \<open>The end of an edge: the start marker, or a node name.\<close>

datatype endpoint = START | Name string

record state_graph =
  schema :: "(string \<times> py_type) list"
  nodes :: "(string \<times> py_function) list"
  edges :: "(endpoint \<times> endpoint) list"

datatype compiled_graph = Compiled state_graph

text \<open>
  Modelled from the spec: the graph-construction API of the engine ("node/edge
  registration, compile") is not part of the notebook. A builder records the nodes and
  the edges in the order of registration, and compiling wraps what was recorded.
\<close>

definition StateGraph :: "(string \<times> py_type) list \<Rightarrow> state_graph" where
  "StateGraph sch = \<lparr>schema = sch, nodes = [], edges = []\<rparr>"

definition add_node :: "py_function \<Rightarrow> state_graph \<Rightarrow> state_graph" where
  "add_node f g = g\<lparr>nodes := nodes g @ [(fn_name f, f)]\<rparr>"

definition add_edge :: "endpoint \<Rightarrow> endpoint \<Rightarrow> state_graph \<Rightarrow> state_graph" where
  "add_edge a b g = g\<lparr>edges := edges g @ [(a, b)]\<rparr>"

definition compile :: "state_graph \<Rightarrow> compiled_graph" where
  "compile g = Compiled g"

fun builder :: "compiled_graph \<Rightarrow> state_graph" where
  "builder (Compiled g) = g"

definition graph :: compiled_graph where
  "graph =
     compile
       (add_edge START (Name ''write_poem'')
         (add_edge START (Name ''write_joke'')
           (add_node write_poem_fn
             (add_node write_joke_fn
               (StateGraph State)))))"

section \<open>The streaming loop\<close>

text \<open>
  \<^verbatim>\<open>
  for msg, metadata in graph.stream(
      {"topic": "cats"},
      stream_mode="messages",
  ):
      if msg.content and metadata["langgraph_node"] == "write_poem":
          print(msg.content, end="|", flush=True)
  \<close>
  The stream yields pairs of a message and its metadata. The loop runs on the standard
  output, a string that \<^verbatim>\<open>print\<close> extends. \<^verbatim>\<open>and\<close> evaluates its right operand only
  when the left one is true, so the metadata of a message with no content is not read.
  The content being text, it is true as a condition when it is not empty, and
  \<^verbatim>\<open>print\<close> writes it as it is.
\<close>

type_synonym chunk = "message \<times> (string \<rightharpoonup> pyval)"

fun loop_body :: "chunk \<Rightarrow> string \<Rightarrow> (error + unit) \<times> string" where
  "loop_body (msg, metadata) out =
     (if content msg \<noteq> [] then
        (case metadata ''langgraph_node'' of
           None \<Rightarrow> (Inl (KeyError ''langgraph_node''), out)
         | Some node \<Rightarrow>
             if node = PyStr ''write_poem'' then (Inr (), out @ content msg @ ''|'')
             else (Inr (), out))
      else (Inr (), out))"

fun stream_loop :: "chunk list \<Rightarrow> string \<Rightarrow> (error + unit) \<times> string" where
  "stream_loop [] out = (Inr (), out)"
| "stream_loop (c # cs) out =
     (case loop_body c out of
        (Inl e, out') \<Rightarrow> (Inl e, out')
      | (Inr u, out') \<Rightarrow> stream_loop cs out')"

text \<open>
  The engine's \<^verbatim>\<open>stream\<close> method is a parameter: for a compiled graph, an input and a
  stream mode it gives the pairs the iteration yields.
\<close>

type_synonym engine = "compiled_graph \<Rightarrow> state \<Rightarrow> string \<Rightarrow> chunk list"

definition stream_cell :: "engine \<Rightarrow> (error + unit) \<times> string" where
  "stream_cell stream =
     stream_loop (stream graph [''topic'' \<mapsto> PyStr ''cats''] ''messages'') []"

section \<open>Properties of \<^verbatim>\<open>_set_env\<close>\<close>

text \<open>
  The test \<^verbatim>\<open>not os.environ.get(var)\<close> holds for a name that is not set and for one set
  to the empty string; the function then asks, and assigns what was entered.
\<close>

lemma set_env_cases:
  "set_env var w =
     (if environ w var = None \<or> environ w var = Some [] then
        (case tty_input w of
           [] \<Rightarrow> (Inl EOFError, w\<lparr>prompted := prompted w @ [var @ '': '']\<rparr>)
         | entered # rest \<Rightarrow>
             environ_setitem var entered
               (w\<lparr>prompted := prompted w @ [var @ '': ''], tty_input := rest\<rparr>))
      else (Inr (), w))"
  by (auto simp: set_env_def environ_get_def getpass_def Let_def
      split: option.splits list.splits)

lemma environ_setitem_prompted: "prompted (snd (environ_setitem k v w)) = prompted w"
  by (simp add: environ_setitem_def)

lemma environ_setitem_frame:
  "k' \<noteq> k \<Longrightarrow> environ (snd (environ_setitem k v w)) k' = environ w k'"
  by (simp add: environ_setitem_def)

lemma environ_setitem_ok:
  "fst (environ_setitem k v w) = Inr () \<Longrightarrow> environ (snd (environ_setitem k v w)) k = Some v"
  by (simp add: environ_setitem_def split: if_splits)

lemma environ_setitem_legal:
  "legal_name k \<Longrightarrow> legal_value v \<Longrightarrow>
   environ_setitem k v w = (Inr (), w\<lparr>environ := (environ w)(k \<mapsto> v)\<rparr>)"
  by (simp add: environ_setitem_def legal_name_def)

text \<open>
  C2, as stated, fails: with \<^verbatim>\<open>OPENAI_API_KEY\<close> set to the empty string the variable is
  set, and yet \<^verbatim>\<open>_set_env\<close> prompts and replaces the value by the one entered.
\<close>

theorem set_env_prompts_though_set:
  "environ \<lparr>environ = [''OPENAI_API_KEY'' \<mapsto> ''''], tty_input = [''sk-1''], prompted = []\<rparr>
      ''OPENAI_API_KEY'' = Some '''' \<and>
   prompted (snd (set_env ''OPENAI_API_KEY''
      \<lparr>environ = [''OPENAI_API_KEY'' \<mapsto> ''''], tty_input = [''sk-1''], prompted = []\<rparr>))
     = [''OPENAI_API_KEY: ''] \<and>
   environ (snd (set_env ''OPENAI_API_KEY''
      \<lparr>environ = [''OPENAI_API_KEY'' \<mapsto> ''''], tty_input = [''sk-1''], prompted = []\<rparr>))
      ''OPENAI_API_KEY'' = Some ''sk-1''"
  by (simp add: set_env_def environ_get_def getpass_def environ_setitem_def
      legal_name_def legal_value_def)

text \<open>
  C2, amended: for every name \<open>var\<close>, \<^verbatim>\<open>_set_env(var)\<close> prompts if and only if the variable
  is unset or set to the empty string, and it then stores the value entered under \<open>var\<close>
  (a line being entered, and the assignment to \<^verbatim>\<open>os.environ\<close> accepted); if the variable
  is set to a non-empty value, it returns without prompting and leaves the world as it
  was.
\<close>

theorem set_env_prompts_iff_falsy:
  "(prompted (snd (set_env var w)) = prompted w @ [var @ '': '']
      \<longleftrightarrow> environ w var = None \<or> environ w var = Some []) \<and>
   ((environ w var = None \<or> environ w var = Some []) \<and> tty_input w = entered # rest \<and>
      legal_name var \<and> legal_value entered \<longrightarrow>
      set_env var w =
        (Inr (), w\<lparr>environ := (environ w)(var \<mapsto> entered), tty_input := rest,
                    prompted := prompted w @ [var @ '': '']\<rparr>)) \<and>
   (environ w var = Some v \<and> v \<noteq> [] \<longrightarrow> set_env var w = (Inr (), w))"
  by (auto simp: set_env_cases environ_setitem_prompted environ_setitem_legal
      split: list.splits)

theorem set_env_prompts_iff_falsy_witness:
  "set_env ''OPENAI_API_KEY'' \<lparr>environ = Map.empty, tty_input = [''sk-1''], prompted = []\<rparr> =
     (Inr (), \<lparr>environ = [''OPENAI_API_KEY'' \<mapsto> ''sk-1''], tty_input = [],
               prompted = [''OPENAI_API_KEY: '']\<rparr>) \<and>
   set_env ''OPENAI_API_KEY''
     \<lparr>environ = [''OPENAI_API_KEY'' \<mapsto> ''sk-0''], tty_input = [''sk-1''], prompted = []\<rparr> =
     (Inr (), \<lparr>environ = [''OPENAI_API_KEY'' \<mapsto> ''sk-0''], tty_input = [''sk-1''],
               prompted = []\<rparr>)"
  using set_env_prompts_iff_falsy [of "''OPENAI_API_KEY''"
      "\<lparr>environ = Map.empty, tty_input = [''sk-1''], prompted = []\<rparr>" "''sk-1''" "[]" "''sk-0''"]
    set_env_prompts_iff_falsy [of "''OPENAI_API_KEY''"
      "\<lparr>environ = [''OPENAI_API_KEY'' \<mapsto> ''sk-0''], tty_input = [''sk-1''], prompted = []\<rparr>"
      "''sk-1''" "[]" "''sk-0''"]
  by (simp add: legal_name_def legal_value_def)

text \<open>
  C8: \<^verbatim>\<open>_set_env(var)\<close> prompts not only when the variable is absent but also when it is
  set to the empty string: the variable is then present, yet the value read is false as
  a condition. The empty value is overwritten by the value entered.
\<close>

theorem set_env_prompts_on_empty:
  "(environ w var = None \<longrightarrow> prompted (snd (set_env var w)) = prompted w @ [var @ '': '']) \<and>
   (environ w var = Some [] \<longrightarrow>
      var \<in> dom (environ w) \<and> \<not> truthy (environ_get var w) \<and>
      prompted (snd (set_env var w)) = prompted w @ [var @ '': ''] \<and>
      (tty_input w = entered # rest \<and> legal_name var \<and> legal_value entered \<longrightarrow>
         fst (set_env var w) = Inr () \<and> environ (snd (set_env var w)) var = Some entered))"
  by (auto simp: set_env_cases environ_get_def environ_setitem_prompted environ_setitem_legal
      split: list.splits)

theorem set_env_prompts_on_empty_witness:
  "prompted (snd (set_env ''OPENAI_API_KEY''
      \<lparr>environ = [''OPENAI_API_KEY'' \<mapsto> ''''], tty_input = [''sk-2''], prompted = []\<rparr>))
     = [''OPENAI_API_KEY: ''] \<and>
   environ (snd (set_env ''OPENAI_API_KEY''
      \<lparr>environ = [''OPENAI_API_KEY'' \<mapsto> ''''], tty_input = [''sk-2''], prompted = []\<rparr>))
      ''OPENAI_API_KEY'' = Some ''sk-2'' \<and>
   prompted (snd (set_env ''OPENAI_API_KEY''
      \<lparr>environ = Map.empty, tty_input = [''sk-2''], prompted = []\<rparr>))
     = [''OPENAI_API_KEY: '']"
  using set_env_prompts_on_empty [of
      "\<lparr>environ = [''OPENAI_API_KEY'' \<mapsto> ''''], tty_input = [''sk-2''], prompted = []\<rparr>"
      "''OPENAI_API_KEY''" "''sk-2''" "[]"]
    set_env_prompts_on_empty [of
      "\<lparr>environ = Map.empty, tty_input = [''sk-2''], prompted = []\<rparr>"
      "''OPENAI_API_KEY''" "''sk-2''" "[]"]
  by (simp add: legal_name_def legal_value_def)

text \<open>
  C10: when \<^verbatim>\<open>_set_env(var)\<close> has returned, the environment contains \<open>var\<close>, whether it was
  set before or not, and every other variable has the value it had.
\<close>

theorem set_env_sets_var_only:
  "fst (set_env var w) = Inr () \<Longrightarrow>
     var \<in> dom (environ (snd (set_env var w))) \<and>
     (\<forall>other. other \<noteq> var \<longrightarrow> environ (snd (set_env var w)) other = environ w other)"
  by (auto simp: set_env_cases environ_setitem_frame split: list.splits if_splits
      dest: environ_setitem_ok)

theorem set_env_sets_var_only_witness:
  "environ (snd (set_env ''OPENAI_API_KEY''
      \<lparr>environ = [''HOME'' \<mapsto> ''/root''], tty_input = [''sk-3''], prompted = []\<rparr>))
      ''OPENAI_API_KEY'' = Some ''sk-3'' \<and>
   environ (snd (set_env ''OPENAI_API_KEY''
      \<lparr>environ = [''HOME'' \<mapsto> ''/root''], tty_input = [''sk-3''], prompted = []\<rparr>))
      ''HOME'' = Some ''/root'' \<and>
   environ (snd (set_env ''OPENAI_API_KEY''
      \<lparr>environ = [''HOME'' \<mapsto> ''/root'', ''OPENAI_API_KEY'' \<mapsto> ''sk-0''], tty_input = [],
       prompted = []\<rparr>)) ''OPENAI_API_KEY'' = Some ''sk-0''"
proof -
  let ?unset = "\<lparr>environ = [''HOME'' \<mapsto> ''/root''], tty_input = [''sk-3''], prompted = []\<rparr>"
  let ?set = "\<lparr>environ = [''HOME'' \<mapsto> ''/root'', ''OPENAI_API_KEY'' \<mapsto> ''sk-0''],
               tty_input = [], prompted = []\<rparr>"
  have a: "fst (set_env ''OPENAI_API_KEY'' ?unset) = Inr ()"
    by (simp add: set_env_def environ_get_def getpass_def environ_setitem_def
        legal_name_def legal_value_def)
  have b: "fst (set_env ''OPENAI_API_KEY'' ?set) = Inr ()"
    by (simp add: set_env_def environ_get_def)
  have c: "''OPENAI_API_KEY'' \<in> dom (environ (snd (set_env ''OPENAI_API_KEY'' ?unset)))"
    using set_env_sets_var_only [OF a] by simp
  have d: "environ (snd (set_env ''OPENAI_API_KEY'' ?unset)) ''HOME'' = Some ''/root''"
    using set_env_sets_var_only [OF a] by simp
  have e: "''OPENAI_API_KEY'' \<in> dom (environ (snd (set_env ''OPENAI_API_KEY'' ?set)))"
    using set_env_sets_var_only [OF b] by simp
  show ?thesis
    using c d e
    by (simp add: set_env_def environ_get_def getpass_def environ_setitem_def
        legal_name_def legal_value_def)
qed

section \<open>Properties of the node functions\<close>


lemma int_to_str_limit:
  "int_to_str (10 ^ max_str_digits) =
     Inl (ValueError ''Exceeds the limit (4300 digits) for integer string conversion; use sys.set_int_max_str_digits() to increase the limit'')"
  by (simp add: int_to_str_def)


lemma write_joke_no_topic:
  "state ''topic'' = None \<Longrightarrow>
   write_joke model state =
     \<lparr>returned = Inl (KeyError ''topic''), state_after = state, invoked = []\<rparr>"
  by (simp add: write_joke_def)

lemma write_poem_no_topic:
  "state ''topic'' = None \<Longrightarrow>
   write_poem model state =
     \<lparr>returned = Inl (KeyError ''topic''), state_after = state, invoked = []\<rparr>"
  by (simp add: write_poem_def)

lemma write_joke_unformatted:
  "state ''topic'' = Some topic \<Longrightarrow> py_str topic = Inl err \<Longrightarrow>
   write_joke model state = \<lparr>returned = Inl err, state_after = state, invoked = []\<rparr>"
  by (simp add: write_joke_def)

lemma write_poem_unformatted:
  "state ''topic'' = Some topic \<Longrightarrow> py_str topic = Inl err \<Longrightarrow>
   write_poem model state = \<lparr>returned = Inl err, state_after = state, invoked = []\<rparr>"
  by (simp add: write_poem_def)

lemma write_joke_topic:
  "state ''topic'' = Some topic \<Longrightarrow> py_str topic = Inr text \<Longrightarrow>
   write_joke model state =
     (case model [[(''role'', ''user''), (''content'', ''Write a joke about '' @ text)]] of
        Inl e \<Rightarrow> \<lparr>returned = Inl e, state_after = state,
                  invoked = [[[(''role'', ''user''),
                               (''content'', ''Write a joke about '' @ text)]]]\<rparr>
      | Inr r \<Rightarrow> \<lparr>returned = Inr [''joke'' \<mapsto> PyStr (content r)], state_after = state,
                  invoked = [[[(''role'', ''user''),
                               (''content'', ''Write a joke about '' @ text)]]]\<rparr>)"
  by (simp add: write_joke_def Let_def split: sum.splits)

lemma write_poem_topic:
  "state ''topic'' = Some topic \<Longrightarrow> py_str topic = Inr text \<Longrightarrow>
   write_poem model state =
     (case model [[(''role'', ''user''), (''content'', ''Write a short poem about '' @ text)]] of
        Inl e \<Rightarrow> \<lparr>returned = Inl e, state_after = state,
                  invoked = [[[(''role'', ''user''),
                               (''content'', ''Write a short poem about '' @ text)]]]\<rparr>
      | Inr r \<Rightarrow> \<lparr>returned = Inr [''poem'' \<mapsto> PyStr (content r)], state_after = state,
                  invoked = [[[(''role'', ''user''),
                               (''content'', ''Write a short poem about '' @ text)]]]\<rparr>)"
  by (simp add: write_poem_def Let_def split: sum.splits)

lemma write_joke_dom:
  "returned (write_joke model state) = Inr upd \<Longrightarrow> dom upd = {''joke''}"
  by (auto simp: write_joke_def Let_def split: option.splits sum.splits if_splits)

lemma write_poem_dom:
  "returned (write_poem model state) = Inr upd \<Longrightarrow> dom upd = {''poem''}"
  by (auto simp: write_poem_def Let_def split: option.splits sum.splits if_splits)

lemma write_joke_state_after: "state_after (write_joke model state) = state"
  by (simp add: write_joke_def Let_def split: option.splits sum.splits)

lemma write_poem_state_after: "state_after (write_poem model state) = state"
  by (simp add: write_poem_def Let_def split: option.splits sum.splits)



lemma merge_frame: "k \<notin> dom upd \<Longrightarrow> merge st upd k = st k"
  by (simp add: merge_def map_add_dom_app_simps)

text \<open>
  C3, as stated, fails: "exactly one model invocation per call" does not hold of every
  call. On a state without the key \<^verbatim>\<open>topic\<close> both functions raise \<^verbatim>\<open>KeyError\<close> and the
  model is not invoked; and on a state whose topic is an integer of 4301 digits the
  f-string raises \<^verbatim>\<open>ValueError\<close>, again before any invocation.
\<close>

theorem node_functions_no_invocation:
  "invoked (write_joke (\<lambda>req. Inr \<lparr>content = ''Meow.''\<rparr>) [''joke'' \<mapsto> PyStr ''Ha'']) = [] \<and>
   returned (write_joke (\<lambda>req. Inr \<lparr>content = ''Meow.''\<rparr>) [''joke'' \<mapsto> PyStr ''Ha''])
     = Inl (KeyError ''topic'') \<and>
   invoked (write_poem (\<lambda>req. Inr \<lparr>content = ''Meow.''\<rparr>) [''joke'' \<mapsto> PyStr ''Ha'']) = [] \<and>
   returned (write_poem (\<lambda>req. Inr \<lparr>content = ''Meow.''\<rparr>) [''joke'' \<mapsto> PyStr ''Ha''])
     = Inl (KeyError ''topic'') \<and>
   invoked (write_joke (\<lambda>req. Inr \<lparr>content = ''Meow.''\<rparr>)
     [''topic'' \<mapsto> PyInt (10 ^ max_str_digits)]) = [] \<and>
   returned (write_joke (\<lambda>req. Inr \<lparr>content = ''Meow.''\<rparr>)
     [''topic'' \<mapsto> PyInt (10 ^ max_str_digits)])
     = Inl (ValueError ''Exceeds the limit (4300 digits) for integer string conversion; use sys.set_int_max_str_digits() to increase the limit'')"
  by (simp add: write_joke_def write_poem_def int_to_str_limit)

text \<open>
  C3, amended: for every input state that contains the key \<^verbatim>\<open>topic\<close> with a value that
  the f-string can convert to text, each of \<^verbatim>\<open>write_joke\<close> and \<^verbatim>\<open>write_poem\<close> invokes the
  model exactly once, with the prompt built from the topic, and returns the single
  assignment of the response's content to \<^verbatim>\<open>joke\<close>, respectively \<^verbatim>\<open>poem\<close>; there is no
  second attempt: when the one invocation raises, the call raises the same exception. On
  a state without \<^verbatim>\<open>topic\<close> the call raises \<^verbatim>\<open>KeyError\<close>, and on a topic that cannot be
  converted it raises the conversion's error, in both cases without invoking the model.
\<close>

theorem node_functions_one_invocation:
  "(state ''topic'' = Some topic \<and> py_str topic = Inr text \<longrightarrow>
      invoked (write_joke model state) =
        [[[(''role'', ''user''), (''content'', ''Write a joke about '' @ text)]]] \<and>
      invoked (write_poem model state) =
        [[[(''role'', ''user''), (''content'', ''Write a short poem about '' @ text)]]] \<and>
      length (invoked (write_joke model state)) = 1 \<and>
      length (invoked (write_poem model state)) = 1 \<and>
      (\<forall>r. model [[(''role'', ''user''), (''content'', ''Write a joke about '' @ text)]] = Inr r
         \<longrightarrow> returned (write_joke model state) = Inr [''joke'' \<mapsto> PyStr (content r)]) \<and>
      (\<forall>r. model [[(''role'', ''user''), (''content'', ''Write a short poem about '' @ text)]]
             = Inr r
         \<longrightarrow> returned (write_poem model state) = Inr [''poem'' \<mapsto> PyStr (content r)]) \<and>
      (\<forall>e. model [[(''role'', ''user''), (''content'', ''Write a joke about '' @ text)]] = Inl e
         \<longrightarrow> returned (write_joke model state) = Inl e) \<and>
      (\<forall>e. model [[(''role'', ''user''), (''content'', ''Write a short poem about '' @ text)]]
             = Inl e
         \<longrightarrow> returned (write_poem model state) = Inl e)) \<and>
   (state ''topic'' = None \<longrightarrow>
      invoked (write_joke model state) = [] \<and>
      returned (write_joke model state) = Inl (KeyError ''topic'') \<and>
      invoked (write_poem model state) = [] \<and>
      returned (write_poem model state) = Inl (KeyError ''topic'')) \<and>
   (state ''topic'' = Some topic \<and> py_str topic = Inl err \<longrightarrow>
      invoked (write_joke model state) = [] \<and>
      returned (write_joke model state) = Inl err \<and>
      invoked (write_poem model state) = [] \<and>
      returned (write_poem model state) = Inl err)"
proof -
  have ok: "invoked (write_joke model state) =
        [[[(''role'', ''user''), (''content'', ''Write a joke about '' @ text)]]] \<and>
      invoked (write_poem model state) =
        [[[(''role'', ''user''), (''content'', ''Write a short poem about '' @ text)]]] \<and>
      length (invoked (write_joke model state)) = 1 \<and>
      length (invoked (write_poem model state)) = 1 \<and>
      (\<forall>r. model [[(''role'', ''user''), (''content'', ''Write a joke about '' @ text)]] = Inr r
         \<longrightarrow> returned (write_joke model state) = Inr [''joke'' \<mapsto> PyStr (content r)]) \<and>
      (\<forall>r. model [[(''role'', ''user''), (''content'', ''Write a short poem about '' @ text)]]
             = Inr r
         \<longrightarrow> returned (write_poem model state) = Inr [''poem'' \<mapsto> PyStr (content r)]) \<and>
      (\<forall>e. model [[(''role'', ''user''), (''content'', ''Write a joke about '' @ text)]] = Inl e
         \<longrightarrow> returned (write_joke model state) = Inl e) \<and>
      (\<forall>e. model [[(''role'', ''user''), (''content'', ''Write a short poem about '' @ text)]]
             = Inl e
         \<longrightarrow> returned (write_poem model state) = Inl e)"
    if "state ''topic'' = Some topic" and "py_str topic = Inr text"
    using that by (simp add: write_joke_topic write_poem_topic split: sum.splits)
  have absent: "invoked (write_joke model state) = [] \<and>
      returned (write_joke model state) = Inl (KeyError ''topic'') \<and>
      invoked (write_poem model state) = [] \<and>
      returned (write_poem model state) = Inl (KeyError ''topic'')"
    if "state ''topic'' = None"
    using that by (simp add: write_joke_no_topic write_poem_no_topic)
  have unformatted: "invoked (write_joke model state) = [] \<and>
      returned (write_joke model state) = Inl err \<and>
      invoked (write_poem model state) = [] \<and>
      returned (write_poem model state) = Inl err"
    if "state ''topic'' = Some topic" and "py_str topic = Inl err"
    using that by (simp add: write_joke_unformatted write_poem_unformatted)
  show ?thesis
    using ok absent unformatted by blast
qed

theorem node_functions_one_invocation_witness:
  "invoked (write_joke (\<lambda>req. Inr \<lparr>content = ''Meow.''\<rparr>) [''topic'' \<mapsto> PyStr ''cats'']) =
     [[[(''role'', ''user''), (''content'', ''Write a joke about cats'')]]] \<and>
   returned (write_joke (\<lambda>req. Inr \<lparr>content = ''Meow.''\<rparr>) [''topic'' \<mapsto> PyStr ''cats'']) =
     Inr [''joke'' \<mapsto> PyStr ''Meow.''] \<and>
   returned (write_poem (\<lambda>req. Inr \<lparr>content = ''Meow.''\<rparr>) [''topic'' \<mapsto> PyStr ''cats'']) =
     Inr [''poem'' \<mapsto> PyStr ''Meow.''] \<and>
   returned (write_joke (\<lambda>req. Inl (OtherError ''timeout'')) [''topic'' \<mapsto> PyStr ''cats'']) =
     Inl (OtherError ''timeout'') \<and>
   length (invoked (write_poem (\<lambda>req. Inl (OtherError ''timeout'')) [''topic'' \<mapsto> PyStr ''cats'']))
     = 1 \<and>
   invoked (write_poem (\<lambda>req. Inr \<lparr>content = ''Meow.''\<rparr>) [''joke'' \<mapsto> PyStr ''Ha'']) = [] \<and>
   returned (write_poem (\<lambda>req. Inr \<lparr>content = ''Meow.''\<rparr>)
     [''topic'' \<mapsto> PyInt (10 ^ max_str_digits)])
     = Inl (ValueError ''Exceeds the limit (4300 digits) for integer string conversion; use sys.set_int_max_str_digits() to increase the limit'')"
  using node_functions_one_invocation
      [of "[''topic'' \<mapsto> PyStr ''cats'']" "PyStr ''cats''" "''cats''"
          "\<lambda>req. Inr \<lparr>content = ''Meow.''\<rparr>"]
    node_functions_one_invocation
      [of "[''topic'' \<mapsto> PyStr ''cats'']" "PyStr ''cats''" "''cats''"
          "\<lambda>req. Inl (OtherError ''timeout'')"]
    node_functions_one_invocation
      [of "[''joke'' \<mapsto> PyStr ''Ha'']" "PyNone" "''None''"
          "\<lambda>req. Inr \<lparr>content = ''Meow.''\<rparr>"]
    node_functions_one_invocation
      [of "[''topic'' \<mapsto> PyInt (10 ^ max_str_digits)]" "PyInt (10 ^ max_str_digits)" "[]"
          "\<lambda>req. Inr \<lparr>content = ''Meow.''\<rparr>"
          "ValueError ''Exceeds the limit (4300 digits) for integer string conversion; use sys.set_int_max_str_digits() to increase the limit''"]
  by (simp add: int_to_str_limit)

text \<open>
  C5: the update that \<^verbatim>\<open>write_joke\<close> returns has the key \<^verbatim>\<open>joke\<close> only, so merging it
  leaves \<^verbatim>\<open>topic\<close> and \<^verbatim>\<open>poem\<close> (every key but \<^verbatim>\<open>joke\<close>) as they were; the update that
  \<^verbatim>\<open>write_poem\<close> returns has the key \<^verbatim>\<open>poem\<close> only, so merging it leaves \<^verbatim>\<open>topic\<close> and
  \<^verbatim>\<open>joke\<close> as they were; and the argument dictionary of either call is, when the call
  ends, what it was when the call began.
\<close>

theorem node_updates_frame:
  "(returned (write_joke model state) = Inr upd \<longrightarrow>
      dom upd = {''joke''} \<and> merge st upd ''topic'' = st ''topic'' \<and>
      merge st upd ''poem'' = st ''poem'' \<and>
      (\<forall>k. k \<noteq> ''joke'' \<longrightarrow> merge st upd k = st k)) \<and>
   (returned (write_poem model state) = Inr upd' \<longrightarrow>
      dom upd' = {''poem''} \<and> merge st upd' ''topic'' = st ''topic'' \<and>
      merge st upd' ''joke'' = st ''joke'' \<and>
      (\<forall>k. k \<noteq> ''poem'' \<longrightarrow> merge st upd' k = st k)) \<and>
   state_after (write_joke model state) = state \<and>
   state_after (write_poem model state) = state"
proof -
  have joke: "dom upd = {''joke''} \<and> merge st upd ''topic'' = st ''topic'' \<and>
      merge st upd ''poem'' = st ''poem'' \<and> (\<forall>k. k \<noteq> ''joke'' \<longrightarrow> merge st upd k = st k)"
    if "returned (write_joke model state) = Inr upd"
  proof -
    have "dom upd = {''joke''}" using that by (rule write_joke_dom)
    then show ?thesis by (simp add: merge_frame)
  qed
  have poem: "dom upd' = {''poem''} \<and> merge st upd' ''topic'' = st ''topic'' \<and>
      merge st upd' ''joke'' = st ''joke'' \<and> (\<forall>k. k \<noteq> ''poem'' \<longrightarrow> merge st upd' k = st k)"
    if "returned (write_poem model state) = Inr upd'"
  proof -
    have "dom upd' = {''poem''}" using that by (rule write_poem_dom)
    then show ?thesis by (simp add: merge_frame)
  qed
  show ?thesis
    using joke poem by (simp add: write_joke_state_after write_poem_state_after)
qed

theorem node_updates_frame_witness:
  "dom [''joke'' \<mapsto> PyStr ''Meow.''] = {''joke''} \<and>
   merge [''topic'' \<mapsto> PyStr ''cats'', ''poem'' \<mapsto> PyStr ''Purr''] [''joke'' \<mapsto> PyStr ''Meow.'']
     ''poem'' = Some (PyStr ''Purr'') \<and>
   merge [''topic'' \<mapsto> PyStr ''cats'', ''joke'' \<mapsto> PyStr ''Ha''] [''poem'' \<mapsto> PyStr ''Meow.'']
     ''joke'' = Some (PyStr ''Ha'') \<and>
   state_after (write_joke (\<lambda>req. Inr \<lparr>content = ''Meow.''\<rparr>) [''topic'' \<mapsto> PyStr ''cats''])
     = [''topic'' \<mapsto> PyStr ''cats'']"
proof -
  let ?m = "\<lambda>req::request. Inr \<lparr>content = ''Meow.''\<rparr> :: error + message"
  let ?s = "[''topic'' \<mapsto> PyStr ''cats''] :: state"
  have j: "returned (write_joke ?m ?s) = Inr [''joke'' \<mapsto> PyStr ''Meow.'']"
    by (simp add: write_joke_def)
  have p: "returned (write_poem ?m ?s) = Inr [''poem'' \<mapsto> PyStr ''Meow.'']"
    by (simp add: write_poem_def)
  show ?thesis
    using node_updates_frame [of ?m ?s "[''joke'' \<mapsto> PyStr ''Meow.'']"
        "[''topic'' \<mapsto> PyStr ''cats'', ''poem'' \<mapsto> PyStr ''Purr'']" "[''poem'' \<mapsto> PyStr ''Meow.'']"]
      node_updates_frame [of ?m ?s "[''joke'' \<mapsto> PyStr ''Meow.'']"
        "[''topic'' \<mapsto> PyStr ''cats'', ''joke'' \<mapsto> PyStr ''Ha'']" "[''poem'' \<mapsto> PyStr ''Meow.'']"]
      j p
    by simp
qed



section \<open>Properties of the graph\<close>

text \<open>
  C4: the construction registers exactly two nodes, \<^verbatim>\<open>write_joke\<close> and \<^verbatim>\<open>write_poem\<close>, and
  declares exactly two edges, both from \<^verbatim>\<open>START\<close>, one to \<^verbatim>\<open>write_joke\<close> and one to
  \<^verbatim>\<open>write_poem\<close>; the graph that is compiled has no other edge.
\<close>

theorem graph_two_nodes_two_edges:
  "map fst (nodes (builder graph)) = [''write_joke'', ''write_poem''] \<and>
   length (nodes (builder graph)) = 2 \<and>
   edges (builder graph) = [(START, Name ''write_joke''), (START, Name ''write_poem'')] \<and>
   length (edges (builder graph)) = 2 \<and>
   map fst (edges (builder graph)) = [START, START]"
  by (simp add: graph_def compile_def add_edge_def add_node_def StateGraph_def
      write_joke_fn_def write_poem_fn_def)

section \<open>Properties of the streaming loop\<close>

lemma stream_loop_append:
  "stream_loop (cs @ ds) out =
     (case stream_loop cs out of
        (Inl e, out') \<Rightarrow> (Inl e, out')
      | (Inr u, out') \<Rightarrow> stream_loop ds out')"
  by (induction cs arbitrary: out) (auto split: prod.splits sum.splits)

lemma loop_body_key:
  "''langgraph_node'' \<in> dom (snd c) \<Longrightarrow> fst (loop_body c out) = Inr ()"
  by (cases c) (auto split: option.splits)

lemma stream_loop_output:
  "\<forall>c \<in> set chunks. ''langgraph_node'' \<in> dom (snd c) \<Longrightarrow>
   stream_loop chunks out =
     (Inr (), out @ concat (map (\<lambda>c. content (fst c) @ ''|'')
        (filter (\<lambda>c. content (fst c) \<noteq> [] \<and>
                      snd c ''langgraph_node'' = Some (PyStr ''write_poem'')) chunks)))"
proof (induction chunks arbitrary: out)
  case Nil
  show ?case by simp
next
  case (Cons c cs)
  obtain msg metadata where c: "c = (msg, metadata)" by (cases c)
  from Cons.prems c obtain node where node: "metadata ''langgraph_node'' = Some node"
    by auto
  have rest: "\<forall>c \<in> set cs. ''langgraph_node'' \<in> dom (snd c)"
    using Cons.prems by simp
  show ?case
    using Cons.IH [OF rest] c node by simp
qed

text \<open>
  C1, as stated, fails: a message with empty content whose metadata names
  \<^verbatim>\<open>write_poem\<close> is not printed; the output stays what it was.
\<close>

theorem loop_skips_empty_write_poem:
  "[''langgraph_node'' \<mapsto> PyStr ''write_poem''] ''langgraph_node'' = Some (PyStr ''write_poem'') \<and>
   loop_body (\<lparr>content = ''''\<rparr>, [''langgraph_node'' \<mapsto> PyStr ''write_poem'']) ''In|''
     = (Inr (), ''In|'')"
  by simp

text \<open>
  C1, amended: the loop iterates the compiled graph's stream with the stream mode
  \<^verbatim>\<open>messages\<close> and prints a streamed message's content (followed by \<^verbatim>\<open>|\<close>) exactly when
  the content is true as a condition (not empty) and the metadata field
  \<^verbatim>\<open>langgraph_node\<close> equals the string \<^verbatim>\<open>write_poem\<close>; a message whose metadata names
  any other node is never printed. On a stream whose metadata all name a node, the output of the whole loop is
  the contents of the messages so selected, in order, each followed by \<^verbatim>\<open>|\<close>.
\<close>

theorem loop_prints_iff:
  "stream_cell stream =
     stream_loop (stream graph [''topic'' \<mapsto> PyStr ''cats''] ''messages'') [] \<and>
   (loop_body (msg, metadata) out = (Inr (), out @ content msg @ ''|'')
      \<longleftrightarrow> content msg \<noteq> [] \<and> metadata ''langgraph_node'' = Some (PyStr ''write_poem'')) \<and>
   (metadata ''langgraph_node'' \<noteq> Some (PyStr ''write_poem'')
      \<longrightarrow> snd (loop_body (msg, metadata) out) = out) \<and>
   ((\<forall>c \<in> set chunks. ''langgraph_node'' \<in> dom (snd c)) \<longrightarrow>
      stream_loop chunks out' =
        (Inr (), out' @ concat (map (\<lambda>c. content (fst c) @ ''|'')
           (filter (\<lambda>c. content (fst c) \<noteq> [] \<and>
                         snd c ''langgraph_node'' = Some (PyStr ''write_poem'')) chunks))))"
proof -
  have cell: "stream_cell stream =
      stream_loop (stream graph [''topic'' \<mapsto> PyStr ''cats''] ''messages'') []"
    by (simp add: stream_cell_def)
  have one: "loop_body (msg, metadata) out = (Inr (), out @ content msg @ ''|'')
      \<longleftrightarrow> content msg \<noteq> [] \<and> metadata ''langgraph_node'' = Some (PyStr ''write_poem'')"
    by (auto split: option.splits)
  have other: "metadata ''langgraph_node'' \<noteq> Some (PyStr ''write_poem'')
      \<longrightarrow> snd (loop_body (msg, metadata) out) = out"
    by (auto split: option.splits)
  show ?thesis
    using cell one other stream_loop_output [of chunks out'] by blast
qed

theorem loop_prints_iff_witness:
  "stream_cell (\<lambda>g input mode. if mode = ''messages''
       then [(\<lparr>content = ''Why''\<rparr>, [''langgraph_node'' \<mapsto> PyStr ''write_joke'']),
             (\<lparr>content = ''In''\<rparr>, [''langgraph_node'' \<mapsto> PyStr ''write_poem''])]
       else []) = (Inr (), ''In|'') \<and>
   loop_body (\<lparr>content = ''In''\<rparr>, [''langgraph_node'' \<mapsto> PyStr ''write_poem'']) []
     = (Inr (), ''In|'') \<and>
   snd (loop_body (\<lparr>content = ''Why''\<rparr>, [''langgraph_node'' \<mapsto> PyStr ''write_joke''])
     ''In|'') = ''In|''"
  using loop_prints_iff [of
      "\<lambda>g input mode. if mode = ''messages''
         then [(\<lparr>content = ''Why''\<rparr>, [''langgraph_node'' \<mapsto> PyStr ''write_joke'']),
               (\<lparr>content = ''In''\<rparr>, [''langgraph_node'' \<mapsto> PyStr ''write_poem''])]
         else []"
      "\<lparr>content = ''In''\<rparr>" "[''langgraph_node'' \<mapsto> PyStr ''write_poem'']" "[]"]
    loop_prints_iff [of
      "\<lambda>g input mode. []"
      "\<lparr>content = ''Why''\<rparr>" "[''langgraph_node'' \<mapsto> PyStr ''write_joke'']" "''In|''"
      "[(\<lparr>content = ''Why''\<rparr>, [''langgraph_node'' \<mapsto> PyStr ''write_joke'']),
        (\<lparr>content = ''In''\<rparr>, [''langgraph_node'' \<mapsto> PyStr ''write_poem''])]" "[]"]
  by simp

text \<open>
  C7: if every metadata mapping that the stream yields contains the key
  \<^verbatim>\<open>langgraph_node\<close>, the indexing \<^verbatim>\<open>metadata["langgraph_node"]\<close> fails for no pair: the
  loop runs to the end without an exception.
\<close>

theorem stream_loop_no_key_error:
  "\<forall>c \<in> set chunks. ''langgraph_node'' \<in> dom (snd c) \<Longrightarrow> fst (stream_loop chunks out) = Inr ()"
proof (induction chunks arbitrary: out)
  case Nil
  show ?case by simp
next
  case (Cons c cs)
  have "fst (loop_body c out) = Inr ()"
    using Cons.prems by (simp add: loop_body_key)
  then obtain out' where "loop_body c out = (Inr (), out')"
    by (cases "loop_body c out") auto
  then show ?case
    using Cons.IH [of out'] Cons.prems by simp
qed

theorem stream_loop_no_key_error_witness:
  "fst (stream_loop
     [(\<lparr>content = ''Why''\<rparr>, [''langgraph_node'' \<mapsto> PyStr ''write_joke'']),
      (\<lparr>content = ''In''\<rparr>,
       [''langgraph_node'' \<mapsto> PyStr ''write_poem'', ''langgraph_step'' \<mapsto> PyInt 1])] []) = Inr ()"
  using stream_loop_no_key_error [of
     "[(\<lparr>content = ''Why''\<rparr>, [''langgraph_node'' \<mapsto> PyStr ''write_joke'']),
       (\<lparr>content = ''In''\<rparr>,
        [''langgraph_node'' \<mapsto> PyStr ''write_poem'', ''langgraph_step'' \<mapsto> PyInt 1])]" "[]"]
  by simp

text \<open>
  C9: the print condition also requires \<^verbatim>\<open>msg.content\<close> to be true as a condition. For a
  message of the node \<^verbatim>\<open>write_poem\<close> whose content is empty nothing is printed, although
  its metadata passes the node filter: the iteration leaves the output as it was, and the
  whole loop behaves as if the message were not in the stream.
\<close>

theorem empty_content_not_printed:
  assumes "content msg = []"
    and "metadata ''langgraph_node'' = Some (PyStr ''write_poem'')"
  shows "loop_body (msg, metadata) out = (Inr (), out) \<and>
         stream_loop (cs @ (msg, metadata) # ds) out' = stream_loop (cs @ ds) out'"
  using assms by (simp add: stream_loop_append split: prod.splits sum.splits)

theorem empty_content_not_printed_witness:
  "loop_body (\<lparr>content = ''''\<rparr>, [''langgraph_node'' \<mapsto> PyStr ''write_poem'']) ''Oh|''
     = (Inr (), ''Oh|'') \<and>
   stream_loop [(\<lparr>content = ''In''\<rparr>, [''langgraph_node'' \<mapsto> PyStr ''write_poem'']),
                (\<lparr>content = ''''\<rparr>, [''langgraph_node'' \<mapsto> PyStr ''write_poem''])] []
     = (Inr (), ''In|'')"
  using empty_content_not_printed [of "\<lparr>content = ''''\<rparr>"
      "[''langgraph_node'' \<mapsto> PyStr ''write_poem'']" "''Oh|''"
      "[(\<lparr>content = ''In''\<rparr>, [''langgraph_node'' \<mapsto> PyStr ''write_poem''])]" "[]" "[]"]
  by simp

end
